theory Spec2Isabelle
  imports Complex_Main
begin

section \<open>JavaScript values\<close>

text \<open>
  A field or argument that may be \<open>undefined\<close> is an \<open>option\<close>, \<open>None\<close> being \<open>undefined\<close>.
  Numbers are modelled as reals: finite and exact (no rounding, no infinities). Where the
  source does arithmetic on an operand that may be \<open>undefined\<close>, the operand becomes
  \<open>NaN\<close>, which is written out with the type \<open>number\<close> below.
\<close>

datatype error = TypeError

datatype number = NaN | Num real

text \<open>\<open>ToNumber\<close> of a numeric field that may be \<open>undefined\<close>.\<close>

fun toNumber :: "real option \<Rightarrow> number" where
  "toNumber None = NaN"
| "toNumber (Some r) = Num r"

text \<open>\<open>a + b\<close> and \<open>a < b\<close> on numbers: \<open>NaN\<close> is absorbing for \<open>+\<close>, every comparison with it is false.\<close>

fun num_add :: "number \<Rightarrow> number \<Rightarrow> number" where
  "num_add (Num a) (Num b) = Num (a + b)"
| "num_add _ _ = NaN"

fun num_lt :: "number \<Rightarrow> number \<Rightarrow> bool" where
  "num_lt (Num a) (Num b) = (a < b)"
| "num_lt _ _ = False"

text \<open>\<open>a % b\<close> on integers: the remainder of the truncating division, with the sign of \<open>a\<close>.\<close>

definition js_rem :: "int \<Rightarrow> int \<Rightarrow> int" where
  "js_rem a b = sgn a * (\<bar>a\<bar> mod \<bar>b\<bar>)"

text \<open>String conversion of a string field that may be \<open>undefined\<close>, as \<open>+\<close> on strings does it.\<close>

fun toString :: "string option \<Rightarrow> string" where
  "toString None = ''undefined''"
| "toString (Some s) = s"

text \<open>
  A property of a plain object: the key is absent, or it is present with a value that may
  itself be \<open>undefined\<close>. \<open>getp\<close> is the read \<open>obj.key\<close>, \<open>inp\<close> the test \<open>key in obj\<close>.
\<close>

datatype 'a property = Absent | Has "'a option"

fun getp :: "'a property \<Rightarrow> 'a option" where
  "getp Absent = None"
| "getp (Has v) = v"

fun inp :: "'a property \<Rightarrow> bool" where
  "inp Absent = False"
| "inp (Has v) = True"

section \<open>Map coordinates\<close>

text \<open>
  Modelled from the spec: the class \<open>MapCoord\<close> of \<open>maplib/map.mjs\<close> is not among the
  sources. The spec describes a coordinate as a value \<open>{x: float, y: float}\<close> in map units,
  compared by field equality.
\<close>

record MapCoord =
  coord_x :: real
  coord_y :: real

text \<open>Modelled from the spec: \<open>equalsTo\<close> compares two coordinates field by field.\<close>

definition equalsTo :: "MapCoord \<Rightarrow> MapCoord \<Rightarrow> bool" where
  "equalsTo a b = (coord_x a = coord_x b \<and> coord_y a = coord_y b)"

text \<open>
  Modelled from the spec: \<open>MapCoord.fromObject\<close> builds a new coordinate from the fields
  of a (defined) object.
\<close>

definition MapCoord_fromObject :: "MapCoord \<Rightarrow> MapCoord" where
  "MapCoord_fromObject obj = \<lparr>coord_x = coord_x obj, coord_y = coord_y obj\<rparr>"

section \<open>PlayerSyncMessage (\<open>common/gamelib/player.mjs\<close>)\<close>

record PlayerSyncMessage =
  msg_playerID :: "string option"
  msg_mapCoord :: "MapCoord option"
  msg_facing :: "string option"
  msg_displayName :: "string option"
  msg_displayChar :: "string option"
  msg_removed :: "bool option"
  msg_clientTime :: "real option"
  msg_updateSuccess :: "bool option"

text \<open>The object \<open>this\<close> at the start of the constructor: no property is set.\<close>

definition PlayerSyncMessage_empty :: PlayerSyncMessage where
  "PlayerSyncMessage_empty =
     \<lparr>msg_playerID = None, msg_mapCoord = None, msg_facing = None, msg_displayName = None,
      msg_displayChar = None, msg_removed = None, msg_clientTime = None,
      msg_updateSuccess = None\<rparr>"

definition playerID_error :: string where
  "playerID_error = [CHR 0x27] @ ''playerID'' @ [CHR 0x27] @ '' of class '' @ [CHR 0x27] @
     ''PlayerSyncMessage'' @ [CHR 0x27] @ '' should not be undefined.''"

text \<open>
  The constructor. Its result is the lines written to \<open>console.error\<close> and the new object.
  The body has no \<open>throw\<close>: every call completes normally (\<open>Inr\<close>), and the early
  \<open>return\<close> yields the object as it is at that point.
\<close>

definition PlayerSyncMessage_new ::
  "string option \<Rightarrow> MapCoord option \<Rightarrow> string option \<Rightarrow> string option \<Rightarrow> string option \<Rightarrow>
   bool option \<Rightarrow> real option \<Rightarrow> bool option \<Rightarrow> error + (string list \<times> PlayerSyncMessage)" where
  "PlayerSyncMessage_new playerID mapCoord facing displayName displayChar removed clientTime
     updateSuccess =
     (if playerID = None then Inr ([playerID_error], PlayerSyncMessage_empty)
      else Inr ([],
        \<lparr>msg_playerID = playerID, msg_mapCoord = mapCoord, msg_facing = facing,
         msg_displayName = displayName, msg_displayChar = displayChar,
         msg_removed = (case removed of None \<Rightarrow> Some False | Some r \<Rightarrow> Some r),
         msg_clientTime = clientTime, msg_updateSuccess = updateSuccess\<rparr>))"

text \<open>
  The object \<open>toJSON\<close> returns. Only \<open>obj.key !== undefined\<close> is ever asked of it, so a
  missing key and an \<open>undefined\<close> value are both \<open>None\<close>.
\<close>

record PlayerSyncMessage_object =
  obj_playerID :: "string option"
  obj_mapCoord :: "MapCoord option"
  obj_facing :: "string option"
  obj_displayName :: "string option"
  obj_displayChar :: "string option"
  obj_removed :: "bool option"
  obj_clientTime :: "real option"
  obj_updateSuccess :: "bool option"

definition PlayerSyncMessage_toJSON :: "PlayerSyncMessage \<Rightarrow> PlayerSyncMessage_object" where
  "PlayerSyncMessage_toJSON this =
     (let ret = \<lparr>obj_playerID = msg_playerID this, obj_mapCoord = None, obj_facing = None,
                 obj_displayName = None, obj_displayChar = None, obj_removed = None,
                 obj_clientTime = None, obj_updateSuccess = None\<rparr>;
          ret = (if msg_mapCoord this \<noteq> None then ret\<lparr>obj_mapCoord := msg_mapCoord this\<rparr> else ret);
          ret = (if msg_facing this \<noteq> None then ret\<lparr>obj_facing := msg_facing this\<rparr> else ret);
          ret = (if msg_displayName this \<noteq> None
                 then ret\<lparr>obj_displayName := msg_displayName this\<rparr> else ret);
          ret = (if msg_displayChar this \<noteq> None
                 then ret\<lparr>obj_displayChar := msg_displayChar this\<rparr> else ret);
          ret = (if msg_removed this \<noteq> None then ret\<lparr>obj_removed := msg_removed this\<rparr> else ret);
          ret = (if msg_clientTime this \<noteq> None
                 then ret\<lparr>obj_clientTime := msg_clientTime this\<rparr> else ret);
          ret = (if msg_updateSuccess this \<noteq> None
                 then ret\<lparr>obj_updateSuccess := msg_updateSuccess this\<rparr> else ret)
      in ret)"

definition PlayerSyncMessage_fromObject ::
  "PlayerSyncMessage_object \<Rightarrow> error + (string list \<times> PlayerSyncMessage)" where
  "PlayerSyncMessage_fromObject obj =
     (case PlayerSyncMessage_new (obj_playerID obj) None None None None None None None of
        Inl e \<Rightarrow> Inl e
      | Inr (console, ret) \<Rightarrow>
         (let ret = (case obj_mapCoord obj of None \<Rightarrow> ret
                     | Some c \<Rightarrow> ret\<lparr>msg_mapCoord := Some (MapCoord_fromObject c)\<rparr>);
              ret = (if obj_facing obj \<noteq> None then ret\<lparr>msg_facing := obj_facing obj\<rparr> else ret);
              ret = (if obj_displayName obj \<noteq> None
                     then ret\<lparr>msg_displayName := obj_displayName obj\<rparr> else ret);
              ret = (if obj_displayChar obj \<noteq> None
                     then ret\<lparr>msg_displayChar := obj_displayChar obj\<rparr> else ret);
              ret = (if obj_removed obj \<noteq> None then ret\<lparr>msg_removed := obj_removed obj\<rparr> else ret);
              ret = (if obj_clientTime obj \<noteq> None
                     then ret\<lparr>msg_clientTime := obj_clientTime obj\<rparr> else ret);
              ret = (if obj_updateSuccess obj \<noteq> None
                     then ret\<lparr>msg_updateSuccess := obj_updateSuccess obj\<rparr> else ret)
          in Inr (console, ret)))"

section \<open>Player (\<open>common/gamelib/player.mjs\<close>)\<close>

text \<open>
  \<open>PLAYER_MOVE_TIME_INTERVAL\<close> is imported from \<open>move-check.mjs\<close>, which is not among the
  sources: it is the parameter \<open>T\<close> of \<open>getDrawInfo\<close>. \<open>Date.now()\<close> is the parameter \<open>now\<close>.
\<close>

definition PLAYER_MOVE_ANIMATION_FRAME_RATE :: real where
  "PLAYER_MOVE_ANIMATION_FRAME_RATE = 100"

record Player =
  playerID :: "string option"
  displayName :: "string option"
  displayChar :: "string option"
  mapCoord :: "MapCoord option"
  facing :: "string option"
  lastMovingTime :: "real option"
  previousMapCoord :: "MapCoord option"
  removed :: "bool option"

definition ATTRIBUTES :: "string list" where
  "ATTRIBUTES = [''playerID'', ''displayName'', ''displayChar'', ''mapCoord'', ''facing'',
     ''lastMovingTime'']"

text \<open>
  The constructor. \<open>_previousMapCoord\<close> and \<open>removed\<close> are not set by it: they read as
  \<open>undefined\<close> until \<open>updateFromMessage\<close> or \<open>fromObject\<close> assigns them.
\<close>

definition Player_new :: "string option \<Rightarrow> Player" where
  "Player_new pid =
     \<lparr>playerID = pid, displayName = pid, displayChar = Some ''char1'', mapCoord = None,
      facing = Some ''D'', lastMovingTime = None, previousMapCoord = None, removed = None\<rparr>"

record DrawInfo =
  info_mapCoord :: "MapCoord option"
  info_displayChar :: "string option"
  info_facing :: "string option"
  info_displayName :: "string option"

text \<open>
  \<open>getDrawInfo\<close>, in state-passing style: the result is \<open>this\<close> after the call and the
  returned object. Reading \<open>.x\<close> of an \<open>undefined\<close> coordinate raises a \<open>TypeError\<close>. In the
  moving branch \<open>lastMovingTime\<close> is a number (the comparison with \<open>NaN\<close> is false, see
  \<open>moving_has_lastMovingTime\<close>), so \<open>frac\<close> is computed on reals and the \<open>None\<close> case of
  its read does not occur; the division is the real one, which is the source's for
  \<open>T \<noteq> 0\<close>.
\<close>

definition getDrawInfo :: "real \<Rightarrow> real \<Rightarrow> Player \<Rightarrow> error + (Player \<times> DrawInfo)" where
  "getDrawInfo T now this =
     (let smoothMoveEnd = num_add (toNumber (lastMovingTime this)) (Num T) in
      if num_lt (Num now) smoothMoveEnd then
        (case mapCoord this of
           None \<Rightarrow> Inl TypeError
         | Some cur \<Rightarrow>
            (let inter = MapCoord_fromObject cur;
                 frac = (now - (case lastMovingTime this of Some t \<Rightarrow> t | None \<Rightarrow> 0)) / T in
             case previousMapCoord this of
               None \<Rightarrow> Inl TypeError
             | Some prev \<Rightarrow>
                (let inter = inter\<lparr>coord_x := (1 - frac) * coord_x prev + frac * coord_x cur\<rparr>;
                     inter = inter\<lparr>coord_y := (1 - frac) * coord_y prev + frac * coord_y cur\<rparr>;
                     phase = js_rem \<lfloor>now / PLAYER_MOVE_ANIMATION_FRAME_RATE\<rfloor> 4;
                     retFacing =
                       (if phase = 0 then Some (toString (facing this) @ ''R'')
                        else if phase = 2 then Some (toString (facing this) @ ''L'')
                        else facing this)
                 in Inr (this,
                      \<lparr>info_mapCoord = Some inter, info_displayChar = displayChar this,
                       info_facing = retFacing, info_displayName = displayName this\<rparr>))))
      else
        Inr (this,
          \<lparr>info_mapCoord = mapCoord this, info_displayChar = displayChar this,
           info_facing = facing this, info_displayName = displayName this\<rparr>))"

text \<open>
  \<open>updateFromMessage\<close>: the result is the returned boolean and \<open>this\<close> after the call.
  \<open>a ?? b\<close> is \<open>b\<close> when \<open>a\<close> is \<open>undefined\<close>.
\<close>

definition updateFromMessage :: "real \<Rightarrow> PlayerSyncMessage \<Rightarrow> Player \<Rightarrow> bool \<times> Player" where
  "updateFromMessage now msg this =
     (if msg_playerID msg \<noteq> playerID this then (False, this)
      else
        (let this =
               (case msg_mapCoord msg of
                  None \<Rightarrow> this
                | Some mc \<Rightarrow>
                   (let this =
                          (case mapCoord this of
                             None \<Rightarrow> this
                           | Some cur \<Rightarrow>
                               if \<not> equalsTo mc cur then this\<lparr>lastMovingTime := Some now\<rparr>
                               else this);
                        this = this\<lparr>previousMapCoord :=
                                 (case mapCoord this of Some cur \<Rightarrow> Some cur | None \<Rightarrow> Some mc)\<rparr>
                    in this\<lparr>mapCoord := Some mc\<rparr>));
             this = (if msg_facing msg \<noteq> None then this\<lparr>facing := msg_facing msg\<rparr> else this);
             this = (if msg_displayName msg \<noteq> None
                     then this\<lparr>displayName := msg_displayName msg\<rparr> else this);
             this = (if msg_displayChar msg \<noteq> None
                     then this\<lparr>displayChar := msg_displayChar msg\<rparr> else this);
             this = (if msg_removed msg \<noteq> None then this\<lparr>removed := msg_removed msg\<rparr> else this)
         in (True, this)))"

text \<open>
  The object \<open>Player.toJSON\<close> returns, one property for each name in \<open>ATTRIBUTES\<close>.
  \<open>fromObject\<close> asks \<open>key in obj\<close>, so absence is kept apart from \<open>undefined\<close>.
\<close>

record Player_object =
  pobj_playerID :: "string property"
  pobj_displayName :: "string property"
  pobj_displayChar :: "string property"
  pobj_mapCoord :: "MapCoord property"
  pobj_facing :: "string property"
  pobj_lastMovingTime :: "real property"

text \<open>The loop over \<open>ATTRIBUTES\<close>, one assignment \<open>ret[key] = this[key]\<close> for each name.\<close>

definition Player_toJSON :: "Player \<Rightarrow> Player_object" where
  "Player_toJSON this =
     (let ret = \<lparr>pobj_playerID = Absent, pobj_displayName = Absent, pobj_displayChar = Absent,
                 pobj_mapCoord = Absent, pobj_facing = Absent, pobj_lastMovingTime = Absent\<rparr>;
          ret = ret\<lparr>pobj_playerID := Has (playerID this)\<rparr>;
          ret = ret\<lparr>pobj_displayName := Has (displayName this)\<rparr>;
          ret = ret\<lparr>pobj_displayChar := Has (displayChar this)\<rparr>;
          ret = ret\<lparr>pobj_mapCoord := Has (mapCoord this)\<rparr>;
          ret = ret\<lparr>pobj_facing := Has (facing this)\<rparr>;
          ret = ret\<lparr>pobj_lastMovingTime := Has (lastMovingTime this)\<rparr>
      in ret)"

text \<open>
  \<open>JSON.parse(JSON.stringify(obj))\<close> on such an object: a property whose value is
  \<open>undefined\<close> is left out of the text, so it is absent afterwards.
\<close>

fun throughJSON :: "'a property \<Rightarrow> 'a property" where
  "throughJSON Absent = Absent"
| "throughJSON (Has None) = Absent"
| "throughJSON (Has (Some v)) = Has (Some v)"

definition Player_object_throughJSON :: "Player_object \<Rightarrow> Player_object" where
  "Player_object_throughJSON obj =
     \<lparr>pobj_playerID = throughJSON (pobj_playerID obj),
      pobj_displayName = throughJSON (pobj_displayName obj),
      pobj_displayChar = throughJSON (pobj_displayChar obj),
      pobj_mapCoord = throughJSON (pobj_mapCoord obj),
      pobj_facing = throughJSON (pobj_facing obj),
      pobj_lastMovingTime = throughJSON (pobj_lastMovingTime obj)\<rparr>"

text \<open>
  \<open>Player.fromObject\<close>: \<open>assignIfDefined\<close> for each name in \<open>ATTRIBUTES\<close>, then the special
  case for \<open>mapCoord\<close>.
\<close>

definition Player_fromObject :: "Player_object \<Rightarrow> Player" where
  "Player_fromObject obj =
     (let ret = Player_new (getp (pobj_playerID obj));
          ret = (if inp (pobj_playerID obj) then ret\<lparr>playerID := getp (pobj_playerID obj)\<rparr>
                 else ret);
          ret = (if inp (pobj_displayName obj)
                 then ret\<lparr>displayName := getp (pobj_displayName obj)\<rparr> else ret);
          ret = (if inp (pobj_displayChar obj)
                 then ret\<lparr>displayChar := getp (pobj_displayChar obj)\<rparr> else ret);
          ret = (if inp (pobj_mapCoord obj) then ret\<lparr>mapCoord := getp (pobj_mapCoord obj)\<rparr>
                 else ret);
          ret = (if inp (pobj_facing obj) then ret\<lparr>facing := getp (pobj_facing obj)\<rparr> else ret);
          ret = (if inp (pobj_lastMovingTime obj)
                 then ret\<lparr>lastMovingTime := getp (pobj_lastMovingTime obj)\<rparr> else ret)
      in case getp (pobj_mapCoord obj) of
           None \<Rightarrow> ret
         | Some c \<Rightarrow> ret\<lparr>mapCoord := Some (MapCoord_fromObject c),
                          previousMapCoord := Some (MapCoord_fromObject c)\<rparr>)"

section \<open>MapRenderer (\<open>extensions/guidepost/common/client.mjs\<close>)\<close>

definition mapCellSize :: real where
  "mapCellSize = 32"

text \<open>
  The fields of the renderer that the coordinate functions read: the canvas size, the map
  size \<open>this.map.getMapSize()\<close> and \<open>viewerPosition\<close>. The model covers a renderer whose
  viewer position has been set to numbers (the constructor's \<open>NaN\<close> is not a real).
\<close>

record MapRenderer =
  canvas_width :: real
  canvas_height :: real
  mapSize_width :: real
  mapSize_height :: real
  viewerPosition_x :: real
  viewerPosition_y :: real

definition setViewerPosition :: "real \<Rightarrow> real \<Rightarrow> MapRenderer \<Rightarrow> MapRenderer" where
  "setViewerPosition x y this =
     (let minX = (canvas_width this / 2) / mapCellSize;
          maxX = mapSize_width this - minX;
          minY = (canvas_height this / 2) / mapCellSize;
          maxY = mapSize_height this - minY;
          x = min (max x minX) maxX;
          y = min (max y minY) maxY
      in this\<lparr>viewerPosition_x := x, viewerPosition_y := y\<rparr>)"

definition canvasToMapCoordinate :: "real \<Rightarrow> real \<Rightarrow> MapRenderer \<Rightarrow> real \<times> real" where
  "canvasToMapCoordinate x y this =
     (let canvasCenter = (canvas_width this / 2, canvas_height this / 2)
      in (viewerPosition_x this + (x - fst canvasCenter) / mapCellSize,
          viewerPosition_y this + (y - snd canvasCenter) / mapCellSize))"

definition mapToCanvasCoordinate :: "real \<Rightarrow> real \<Rightarrow> MapRenderer \<Rightarrow> int \<times> int" where
  "mapToCanvasCoordinate x y this =
     (let canvasCenter = (canvas_width this / 2, canvas_height this / 2)
      in (\<lfloor>fst canvasCenter + (x - viewerPosition_x this) * mapCellSize\<rfloor>,
          \<lfloor>snd canvasCenter + (y - viewerPosition_y this) * mapCellSize\<rfloor>))"

text \<open>
  A layer's draw takes the drawing state and returns its boolean and the new state, or
  raises; a raise carries the state at that point, since what was drawn before it stays
  on the canvas.
\<close>

type_synonym 's layer_draw = "'s \<Rightarrow> (error \<times> 's) + (bool \<times> 's)"

text \<open>
  The two layers of this renderer, \<open>_drawGround\<close> and \<open>_drawPlayers\<close>. Their drawing state
  is the list of calls made on the 2D context \<open>ctx\<close>, in call order. The collaborators are
  parameters: \<open>getCellRenderInfo\<close> is \<open>this.map.getCellRenderInfo\<close>, \<open>getCharacter\<close> is
  \<open>this.map.graphicAsset.getCharacter\<close> (\<open>None\<close> when they return \<open>undefined\<close>, whose \<open>.image\<close>
  raises a \<open>TypeError\<close>), \<open>players\<close> is \<open>Object.values(this.gameState.getPlayers())\<close>.
\<close>

definition fontStyle :: string where
  "fontStyle = ''12px serif''"

record RenderInfo =
  ri_image :: string
  ri_srcX :: real
  ri_srcY :: real
  ri_srcWidth :: real
  ri_srcHeight :: real

datatype ctx_call =
    DrawImage string real real real real int int real real
  | Save
  | Font string
  | TextAlign string
  | TextBaseline string
  | FillText "string option" int int
  | Restore

record PlayerEntry =
  entry_x :: real
  entry_y :: real
  entry_displayChar :: "string option"
  entry_facing :: "string option"
  entry_displayName :: "string option"

text \<open>The inner loop of \<open>_drawGround\<close>, over \<open>mapX\<close>, and the outer one, over \<open>mapY\<close>.\<close>

fun drawGround_cells ::
  "(string \<Rightarrow> int \<Rightarrow> int \<Rightarrow> RenderInfo option) \<Rightarrow> MapRenderer \<Rightarrow> int \<Rightarrow> int list \<Rightarrow>
   ctx_call list \<Rightarrow> (error \<times> ctx_call list) + ctx_call list" where
  "drawGround_cells getCellRenderInfo this mapY [] ctx = Inr ctx"
| "drawGround_cells getCellRenderInfo this mapY (mapX # rest) ctx =
     (if real_of_int mapX < 0 \<or> mapSize_width this \<le> real_of_int mapX \<or>
         real_of_int mapY < 0 \<or> mapSize_height this \<le> real_of_int mapY
      then drawGround_cells getCellRenderInfo this mapY rest ctx
      else
        (case getCellRenderInfo ''ground'' mapX mapY of
           None \<Rightarrow> Inl (TypeError, ctx)
         | Some renderInfo \<Rightarrow>
            (let canvasCoordinate =
                   mapToCanvasCoordinate (real_of_int mapX) (real_of_int mapY) this
             in drawGround_cells getCellRenderInfo this mapY rest
                  (ctx @ [DrawImage (ri_image renderInfo) (ri_srcX renderInfo)
                            (ri_srcY renderInfo) (ri_srcWidth renderInfo)
                            (ri_srcHeight renderInfo) (fst canvasCoordinate)
                            (snd canvasCoordinate) mapCellSize mapCellSize]))))"

fun drawGround_rows ::
  "(string \<Rightarrow> int \<Rightarrow> int \<Rightarrow> RenderInfo option) \<Rightarrow> MapRenderer \<Rightarrow> int list \<Rightarrow> int list \<Rightarrow>
   ctx_call list \<Rightarrow> (error \<times> ctx_call list) + ctx_call list" where
  "drawGround_rows getCellRenderInfo this [] mapXs ctx = Inr ctx"
| "drawGround_rows getCellRenderInfo this (mapY # rest) mapXs ctx =
     (case drawGround_cells getCellRenderInfo this mapY mapXs ctx of
        Inl raised \<Rightarrow> Inl raised
      | Inr ctx \<Rightarrow> drawGround_rows getCellRenderInfo this rest mapXs ctx)"

definition MapRenderer_drawGround ::
  "(string \<Rightarrow> int \<Rightarrow> int \<Rightarrow> RenderInfo option) \<Rightarrow> MapRenderer \<Rightarrow> ctx_call list layer_draw" where
  "MapRenderer_drawGround getCellRenderInfo this ctx =
     (let firstCellMapCoordFloat = canvasToMapCoordinate 0 0 this;
          firstCellMapCoordInt =
            (\<lfloor>fst firstCellMapCoordFloat\<rfloor>, \<lfloor>snd firstCellMapCoordFloat\<rfloor>);
          lastCellMapCoordFloat =
            canvasToMapCoordinate (canvas_width this) (canvas_height this) this;
          lastCellMapCoordInt =
            (\<lfloor>fst lastCellMapCoordFloat\<rfloor>, \<lfloor>snd lastCellMapCoordFloat\<rfloor>);
          ret = True
      in case drawGround_rows getCellRenderInfo this
                [snd firstCellMapCoordInt..snd lastCellMapCoordInt]
                [fst firstCellMapCoordInt..fst lastCellMapCoordInt] ctx of
           Inl raised \<Rightarrow> Inl raised
         | Inr ctx \<Rightarrow> Inr (ret, ctx))"

text \<open>The two loops of \<open>_drawPlayers\<close>: the sprites, then the names.\<close>

fun drawPlayers_sprites ::
  "(string option \<Rightarrow> string option \<Rightarrow> RenderInfo option) \<Rightarrow> MapRenderer \<Rightarrow> PlayerEntry list \<Rightarrow>
   ctx_call list \<Rightarrow> (error \<times> ctx_call list) + ctx_call list" where
  "drawPlayers_sprites getCharacter this [] ctx = Inr ctx"
| "drawPlayers_sprites getCharacter this (p # rest) ctx =
     (let canvasCoordinate = mapToCanvasCoordinate (entry_x p) (entry_y p) this in
      if real_of_int (fst canvasCoordinate) < - mapCellSize \<or>
         canvas_width this \<le> real_of_int (fst canvasCoordinate) \<or>
         real_of_int (snd canvasCoordinate) < - mapCellSize \<or>
         canvas_height this \<le> real_of_int (snd canvasCoordinate)
      then drawPlayers_sprites getCharacter this rest ctx
      else
        (case getCharacter (entry_displayChar p) (entry_facing p) of
           None \<Rightarrow> Inl (TypeError, ctx)
         | Some renderInfo \<Rightarrow>
            drawPlayers_sprites getCharacter this rest
              (ctx @ [DrawImage (ri_image renderInfo) (ri_srcX renderInfo)
                        (ri_srcY renderInfo) (ri_srcWidth renderInfo)
                        (ri_srcHeight renderInfo) (fst canvasCoordinate)
                        (snd canvasCoordinate) mapCellSize mapCellSize])))"

fun drawPlayers_names :: "MapRenderer \<Rightarrow> PlayerEntry list \<Rightarrow> ctx_call list \<Rightarrow> ctx_call list" where
  "drawPlayers_names this [] ctx = ctx"
| "drawPlayers_names this (p # rest) ctx =
     (let canvasCoordinate = mapToCanvasCoordinate (entry_x p + 0.5) (entry_y p) this
      in drawPlayers_names this rest
           (ctx @ [FillText (entry_displayName p) (fst canvasCoordinate)
                     (snd canvasCoordinate)]))"

definition MapRenderer_drawPlayers ::
  "(string option \<Rightarrow> string option \<Rightarrow> RenderInfo option) \<Rightarrow> PlayerEntry list \<Rightarrow> MapRenderer \<Rightarrow>
   ctx_call list layer_draw" where
  "MapRenderer_drawPlayers getCharacter players this ctx =
     (case drawPlayers_sprites getCharacter this players ctx of
        Inl raised \<Rightarrow> Inl raised
      | Inr ctx \<Rightarrow>
         (let ctx = ctx @ [Save];
              ctx = ctx @ [Font fontStyle];
              ctx = ctx @ [TextAlign ''center''];
              ctx = ctx @ [TextBaseline ''bottom''];
              ctx = drawPlayers_names this players ctx;
              ctx = ctx @ [Restore]
          in Inr (True, ctx)))"

text \<open>
  Modelled from the spec: the entry of a registered layer,
  \<open>(zIndex: int, name: string, drawFn, data)\<close>. No class of the sources declares it; the
  callback is a layer's draw that is given the layer's data.
\<close>

record 'd layer =
  zIndex :: int
  layerName :: string
  drawFn :: "'d \<Rightarrow> ctx_call list layer_draw"
  layerData :: 'd

text \<open>
  The renderer object as \<open>draw\<close> sees it: the fields the coordinate functions read, the calls
  made so far on \<open>this.ctx\<close>, and the registered layers. The constructor of the sources sets
  no field for registered layers; \<open>customizedLayers\<close> is where the registration below
  keeps them.
\<close>

record 'd renderer =
  viewport :: MapRenderer
  canvas_ctx :: "ctx_call list"
  customizedLayers :: "'d layer list"

text \<open>
  Modelled from the spec: \<open>registerCustomizedLayerToDraw\<close>, which \<open>Client.gameStart\<close> calls on
  the renderer, is not among the sources. The spec's \<open>RegisterLayer\<close> adds the entry,
  replacing an entry of the same name, and triggers no redraw.
\<close>

definition registerCustomizedLayerToDraw ::
  "int \<Rightarrow> string \<Rightarrow> ('d \<Rightarrow> ctx_call list layer_draw) \<Rightarrow> 'd \<Rightarrow> 'd renderer \<Rightarrow> 'd renderer" where
  "registerCustomizedLayerToDraw z n f d this =
     this\<lparr>customizedLayers :=
       filter (\<lambda>l. layerName l \<noteq> n) (customizedLayers this) @
         [\<lparr>zIndex = z, layerName = n, drawFn = f, layerData = d\<rparr>]\<rparr>"

text \<open>The constant \<open>LAYER_GUIDEPOST\<close> of the guidepost extension's client.\<close>

definition LAYER_GUIDEPOST_zIndex :: int where
  "LAYER_GUIDEPOST_zIndex = - 10"

definition LAYER_GUIDEPOST_layerName :: string where
  "LAYER_GUIDEPOST_layerName = ''guidepost''"

text \<open>
  \<open>draw\<close>. It calls the two layer methods of \<open>this\<close> and nothing else. \<open>ret &&= f()\<close> calls \<open>f\<close>
  only when \<open>ret\<close> is true, and then assigns its result to \<open>ret\<close>; nothing catches what a
  layer raises.
\<close>

definition draw ::
  "(string \<Rightarrow> int \<Rightarrow> int \<Rightarrow> RenderInfo option) \<Rightarrow>
   (string option \<Rightarrow> string option \<Rightarrow> RenderInfo option) \<Rightarrow> PlayerEntry list \<Rightarrow>
   'd renderer layer_draw" where
  "draw getCellRenderInfo getCharacter players this =
     (let ret = True in
      case (if ret
            then MapRenderer_drawGround getCellRenderInfo (viewport this) (canvas_ctx this)
            else Inr (ret, canvas_ctx this)) of
        Inl (e, ctx) \<Rightarrow> Inl (e, this\<lparr>canvas_ctx := ctx\<rparr>)
      | Inr (ret, ctx) \<Rightarrow>
         (case (if ret
                then MapRenderer_drawPlayers getCharacter players (viewport this) ctx
                else Inr (ret, ctx)) of
            Inl (e, ctx) \<Rightarrow> Inl (e, this\<lparr>canvas_ctx := ctx\<rparr>)
          | Inr (ret, ctx) \<Rightarrow> Inr (ret, this\<lparr>canvas_ctx := ctx\<rparr>)))"

section \<open>Applying a message\<close>

lemma equalsTo_eq: "equalsTo a b = (a = b)"
  by (cases a, cases b) (auto simp add: equalsTo_def)

lemma MapCoord_fromObject_id: "MapCoord_fromObject c = c"
  by (simp add: MapCoord_fromObject_def)

lemma updateFromMessage_foreign:
  "msg_playerID msg \<noteq> playerID this \<Longrightarrow> updateFromMessage now msg this = (False, this)"
  by (simp add: updateFromMessage_def)

lemma updateFromMessage_own:
  "msg_playerID msg = playerID this \<Longrightarrow> fst (updateFromMessage now msg this) = True"
  by (simp add: updateFromMessage_def Let_def)

text \<open>
  C3. A message whose \<open>playerID\<close> differs from the player's is rejected: \<open>updateFromMessage\<close>
  returns false and the player is unchanged in every field. A message whose \<open>playerID\<close>
  matches is accepted: it returns true.
\<close>

theorem updateFromMessage_identity:
  "(msg_playerID msg \<noteq> playerID this \<longrightarrow> updateFromMessage now msg this = (False, this)) \<and>
   (msg_playerID msg = playerID this \<longrightarrow> fst (updateFromMessage now msg this) = True)"
  by (simp add: updateFromMessage_foreign updateFromMessage_own)

theorem updateFromMessage_identity_witness:
  "updateFromMessage 0
      (PlayerSyncMessage_empty\<lparr>msg_playerID := Some ''p2'', msg_facing := Some ''U''\<rparr>)
      (Player_new (Some ''p1'')) = (False, Player_new (Some ''p1'')) \<and>
   fst (updateFromMessage 0
      (PlayerSyncMessage_empty\<lparr>msg_playerID := Some ''p1'', msg_facing := Some ''U''\<rparr>)
      (Player_new (Some ''p1''))) = True"
  using
    updateFromMessage_identity
      [of "PlayerSyncMessage_empty\<lparr>msg_playerID := Some ''p2'', msg_facing := Some ''U''\<rparr>"
        "Player_new (Some ''p1'')" 0]
    updateFromMessage_identity
      [of "PlayerSyncMessage_empty\<lparr>msg_playerID := Some ''p1'', msg_facing := Some ''U''\<rparr>"
        "Player_new (Some ''p1'')" 0]
  by (simp add: PlayerSyncMessage_empty_def Player_new_def)

text \<open>
  C1, as stated, fails. The player below moved from \<open>(5, 5)\<close> to \<open>(6, 5)\<close>; a second message
  repeats the position \<open>(6, 5)\<close>. The message's position does not differ from the current
  one, and still \<open>_previousMapCoord\<close> is overwritten with the prior position \<open>(6, 5)\<close>: the
  assignment to \<open>_previousMapCoord\<close> stands outside the test for a changed position.
\<close>

theorem updateFromMessage_previous_iff_counterexample:
  "\<not> (previousMapCoord (snd (updateFromMessage 2000
          (PlayerSyncMessage_empty\<lparr>msg_playerID := Some ''p1'',
             msg_mapCoord := Some \<lparr>coord_x = 6, coord_y = 5\<rparr>\<rparr>)
          ((Player_new (Some ''p1''))\<lparr>mapCoord := Some \<lparr>coord_x = 6, coord_y = 5\<rparr>,
             previousMapCoord := Some \<lparr>coord_x = 5, coord_y = 5\<rparr>,
             lastMovingTime := Some 1000\<rparr>)))
        = Some \<lparr>coord_x = 6, coord_y = 5\<rparr>
      \<longleftrightarrow> Some \<lparr>coord_x = 6, coord_y = 5\<rparr> \<noteq> Some \<lparr>coord_x = 6, coord_y = (5::real)\<rparr>) \<and>
   previousMapCoord (snd (updateFromMessage 2000
          (PlayerSyncMessage_empty\<lparr>msg_playerID := Some ''p1'',
             msg_mapCoord := Some \<lparr>coord_x = 6, coord_y = 5\<rparr>\<rparr>)
          ((Player_new (Some ''p1''))\<lparr>mapCoord := Some \<lparr>coord_x = 6, coord_y = 5\<rparr>,
             previousMapCoord := Some \<lparr>coord_x = 5, coord_y = 5\<rparr>,
             lastMovingTime := Some 1000\<rparr>)))
     \<noteq> Some \<lparr>coord_x = 5, coord_y = 5\<rparr>"
  by (simp add: updateFromMessage_def Let_def equalsTo_def PlayerSyncMessage_empty_def
      Player_new_def)

text \<open>
  C1, amended. For an accepted message that contains a position \<open>c\<close>: \<open>_previousMapCoord\<close>
  becomes the prior position whenever the player's position was set, whether or not \<open>c\<close>
  differs from it, and becomes \<open>c\<close> when the position was unset; the position becomes \<open>c\<close>;
  \<open>lastMovingTime\<close> becomes \<open>now\<close> if and only if the position was set and \<open>c\<close> differs
  from it, and is unchanged otherwise.
\<close>

theorem updateFromMessage_previousMapCoord:
  assumes "msg_playerID msg = playerID this" and "msg_mapCoord msg = Some c"
  shows "previousMapCoord (snd (updateFromMessage now msg this)) =
           (case mapCoord this of Some cur \<Rightarrow> Some cur | None \<Rightarrow> Some c) \<and>
         mapCoord (snd (updateFromMessage now msg this)) = Some c \<and>
         lastMovingTime (snd (updateFromMessage now msg this)) =
           (case mapCoord this of
              Some cur \<Rightarrow> if c \<noteq> cur then Some now else lastMovingTime this
            | None \<Rightarrow> lastMovingTime this)"
  using assms by (simp add: updateFromMessage_def Let_def equalsTo_eq split: option.splits)

theorem updateFromMessage_previousMapCoord_witness:
  "previousMapCoord (snd (updateFromMessage 2000
       (PlayerSyncMessage_empty\<lparr>msg_playerID := Some ''p1'',
          msg_mapCoord := Some \<lparr>coord_x = 6, coord_y = 5\<rparr>\<rparr>)
       ((Player_new (Some ''p1''))\<lparr>mapCoord := Some \<lparr>coord_x = 5, coord_y = 5\<rparr>,
          previousMapCoord := Some \<lparr>coord_x = 5, coord_y = 5\<rparr>\<rparr>)))
     = Some \<lparr>coord_x = 5, coord_y = 5\<rparr> \<and>
   mapCoord (snd (updateFromMessage 2000
       (PlayerSyncMessage_empty\<lparr>msg_playerID := Some ''p1'',
          msg_mapCoord := Some \<lparr>coord_x = 6, coord_y = 5\<rparr>\<rparr>)
       ((Player_new (Some ''p1''))\<lparr>mapCoord := Some \<lparr>coord_x = 5, coord_y = 5\<rparr>,
          previousMapCoord := Some \<lparr>coord_x = 5, coord_y = 5\<rparr>\<rparr>)))
     = Some \<lparr>coord_x = 6, coord_y = 5\<rparr> \<and>
   lastMovingTime (snd (updateFromMessage 2000
       (PlayerSyncMessage_empty\<lparr>msg_playerID := Some ''p1'',
          msg_mapCoord := Some \<lparr>coord_x = 6, coord_y = 5\<rparr>\<rparr>)
       ((Player_new (Some ''p1''))\<lparr>mapCoord := Some \<lparr>coord_x = 5, coord_y = 5\<rparr>,
          previousMapCoord := Some \<lparr>coord_x = 5, coord_y = 5\<rparr>\<rparr>)))
     = Some 2000"
  using updateFromMessage_previousMapCoord
    [of "PlayerSyncMessage_empty\<lparr>msg_playerID := Some ''p1'',
          msg_mapCoord := Some \<lparr>coord_x = 6, coord_y = 5\<rparr>\<rparr>"
      "(Player_new (Some ''p1''))\<lparr>mapCoord := Some \<lparr>coord_x = 5, coord_y = 5\<rparr>,
          previousMapCoord := Some \<lparr>coord_x = 5, coord_y = 5\<rparr>\<rparr>"
      "\<lparr>coord_x = 6, coord_y = 5\<rparr>" 2000]
  by (simp add: PlayerSyncMessage_empty_def Player_new_def)

section \<open>The draw pose\<close>

lemma moving_has_lastMovingTime:
  "num_lt (Num now) (num_add (toNumber (lastMovingTime this)) (Num T)) \<Longrightarrow>
   \<exists>t. lastMovingTime this = Some t \<and> now < t + T"
  by (cases "lastMovingTime this") simp_all

lemma getDrawInfo_this:
  "getDrawInfo T now this = Inr (this', info) \<Longrightarrow> this' = this"
  by (auto simp add: getDrawInfo_def Let_def split: if_splits option.splits)

text \<open>
  C10. A player whose \<open>lastMovingTime\<close> is unset has never moved: at every \<open>now\<close> the pose
  is the authoritative position and the base facing, unmodified. \<open>undefined + T\<close> is \<open>NaN\<close>
  and \<open>now < NaN\<close> is false, so the interpolation and walk-cycle branch is not taken.
\<close>

theorem getDrawInfo_never_moved:
  "lastMovingTime this = None \<Longrightarrow>
   getDrawInfo T now this =
     Inr (this, \<lparr>info_mapCoord = mapCoord this, info_displayChar = displayChar this,
                 info_facing = facing this, info_displayName = displayName this\<rparr>)"
  by (simp add: getDrawInfo_def)

theorem getDrawInfo_never_moved_witness:
  "getDrawInfo 200 1234 (Player_new (Some ''p1'')) =
     Inr (Player_new (Some ''p1''),
          \<lparr>info_mapCoord = None, info_displayChar = Some ''char1'', info_facing = Some ''D'',
           info_displayName = Some ''p1''\<rparr>)"
  using getDrawInfo_never_moved [of "Player_new (Some ''p1'')" 200 1234]
  by (simp add: Player_new_def)

text \<open>
  C4. With \<open>lastMovingTime = t0\<close>, \<open>_previousMapCoord = P\<close>, \<open>mapCoord = Q\<close> and a positive
  move interval \<open>T\<close>: the pose at \<open>t0\<close> has position \<open>P\<close>, at \<open>t0 + T\<close> position \<open>Q\<close>, at
  \<open>t0 + T / 2\<close> the componentwise midpoint of \<open>P\<close> and \<open>Q\<close>; at every \<open>now\<close> the player
  after the call is the player before it, so its position is not modified.
\<close>

theorem getDrawInfo_interpolation:
  assumes "0 < T" and "lastMovingTime this = Some t0" and "previousMapCoord this = Some P"
    and "mapCoord this = Some Q"
  shows "(\<exists>info. getDrawInfo T t0 this = Inr (this, info) \<and> info_mapCoord info = Some P) \<and>
         (\<exists>info. getDrawInfo T (t0 + T) this = Inr (this, info) \<and>
            info_mapCoord info = Some Q) \<and>
         (\<exists>info. getDrawInfo T (t0 + T / 2) this = Inr (this, info) \<and>
            info_mapCoord info = Some \<lparr>coord_x = (coord_x P + coord_x Q) / 2,
                                        coord_y = (coord_y P + coord_y Q) / 2\<rparr>) \<and>
         (\<forall>now. \<exists>info. getDrawInfo T now this = Inr (this, info))"
  using assms by (auto simp add: getDrawInfo_def Let_def MapCoord_fromObject_def field_simps)

theorem getDrawInfo_interpolation_witness:
  "(\<exists>info. getDrawInfo 200 1000
       ((Player_new (Some ''p1''))\<lparr>mapCoord := Some \<lparr>coord_x = 6, coord_y = 5\<rparr>,
          previousMapCoord := Some \<lparr>coord_x = 5, coord_y = 5\<rparr>, lastMovingTime := Some 1000\<rparr>)
     = Inr ((Player_new (Some ''p1''))\<lparr>mapCoord := Some \<lparr>coord_x = 6, coord_y = 5\<rparr>,
          previousMapCoord := Some \<lparr>coord_x = 5, coord_y = 5\<rparr>, lastMovingTime := Some 1000\<rparr>,
          info) \<and>
     info_mapCoord info = Some \<lparr>coord_x = 5, coord_y = 5\<rparr>) \<and>
   (\<exists>info. getDrawInfo 200 1200
       ((Player_new (Some ''p1''))\<lparr>mapCoord := Some \<lparr>coord_x = 6, coord_y = 5\<rparr>,
          previousMapCoord := Some \<lparr>coord_x = 5, coord_y = 5\<rparr>, lastMovingTime := Some 1000\<rparr>)
     = Inr ((Player_new (Some ''p1''))\<lparr>mapCoord := Some \<lparr>coord_x = 6, coord_y = 5\<rparr>,
          previousMapCoord := Some \<lparr>coord_x = 5, coord_y = 5\<rparr>, lastMovingTime := Some 1000\<rparr>,
          info) \<and>
     info_mapCoord info = Some \<lparr>coord_x = 6, coord_y = 5\<rparr>) \<and>
   (\<exists>info. getDrawInfo 200 1100
       ((Player_new (Some ''p1''))\<lparr>mapCoord := Some \<lparr>coord_x = 6, coord_y = 5\<rparr>,
          previousMapCoord := Some \<lparr>coord_x = 5, coord_y = 5\<rparr>, lastMovingTime := Some 1000\<rparr>)
     = Inr ((Player_new (Some ''p1''))\<lparr>mapCoord := Some \<lparr>coord_x = 6, coord_y = 5\<rparr>,
          previousMapCoord := Some \<lparr>coord_x = 5, coord_y = 5\<rparr>, lastMovingTime := Some 1000\<rparr>,
          info) \<and>
     info_mapCoord info = Some \<lparr>coord_x = 11 / 2, coord_y = 5\<rparr>)"
  using getDrawInfo_interpolation
    [of 200 "(Player_new (Some ''p1''))\<lparr>mapCoord := Some \<lparr>coord_x = 6, coord_y = 5\<rparr>,
          previousMapCoord := Some \<lparr>coord_x = 5, coord_y = 5\<rparr>, lastMovingTime := Some 1000\<rparr>"
      1000 "\<lparr>coord_x = 5, coord_y = 5\<rparr>" "\<lparr>coord_x = 6, coord_y = 5\<rparr>"]
  by (simp add: Player_new_def)

section \<open>Serialization\<close>

lemma PlayerSyncMessage_toJSON_fields:
  "PlayerSyncMessage_toJSON m =
     \<lparr>obj_playerID = msg_playerID m, obj_mapCoord = msg_mapCoord m, obj_facing = msg_facing m,
      obj_displayName = msg_displayName m, obj_displayChar = msg_displayChar m,
      obj_removed = msg_removed m, obj_clientTime = msg_clientTime m,
      obj_updateSuccess = msg_updateSuccess m\<rparr>"
  unfolding PlayerSyncMessage_toJSON_def Let_def
  by (rule PlayerSyncMessage_object.equality) simp_all

lemma PlayerSyncMessage_roundtrip_with_id:
  assumes "msg_playerID m = Some pid"
  shows "PlayerSyncMessage_fromObject (PlayerSyncMessage_toJSON m) =
           Inr ([], m\<lparr>msg_removed := Some (case msg_removed m of None \<Rightarrow> False | Some b \<Rightarrow> b)\<rparr>)"
proof -
  have "snd (projr (PlayerSyncMessage_fromObject (PlayerSyncMessage_toJSON m))) =
          m\<lparr>msg_removed := Some (case msg_removed m of None \<Rightarrow> False | Some b \<Rightarrow> b)\<rparr>"
    using assms unfolding PlayerSyncMessage_toJSON_fields PlayerSyncMessage_fromObject_def
      PlayerSyncMessage_new_def Let_def
    by (intro PlayerSyncMessage.equality)
       (simp_all add: MapCoord_fromObject_id split: option.split)
  moreover have "\<exists>r. PlayerSyncMessage_fromObject (PlayerSyncMessage_toJSON m) = Inr ([], r)"
    using assms unfolding PlayerSyncMessage_toJSON_fields PlayerSyncMessage_fromObject_def
      PlayerSyncMessage_new_def Let_def
    by simp
  ultimately show ?thesis by auto
qed

lemma PlayerSyncMessage_roundtrip_without_id:
  assumes "msg_playerID m = None"
  shows "PlayerSyncMessage_fromObject (PlayerSyncMessage_toJSON m) = Inr ([playerID_error], m)"
proof -
  have "snd (projr (PlayerSyncMessage_fromObject (PlayerSyncMessage_toJSON m))) = m"
    using assms unfolding PlayerSyncMessage_toJSON_fields PlayerSyncMessage_fromObject_def
      PlayerSyncMessage_new_def PlayerSyncMessage_empty_def Let_def
    by (intro PlayerSyncMessage.equality)
       (simp_all add: MapCoord_fromObject_id split: option.split)
  moreover have "\<exists>r. PlayerSyncMessage_fromObject (PlayerSyncMessage_toJSON m) =
      Inr ([playerID_error], r)"
    using assms unfolding PlayerSyncMessage_toJSON_fields PlayerSyncMessage_fromObject_def
      PlayerSyncMessage_new_def Let_def
    by simp
  ultimately show ?thesis by auto
qed

lemma Player_toJSON_fields:
  "Player_toJSON p =
     \<lparr>pobj_playerID = Has (playerID p), pobj_displayName = Has (displayName p),
      pobj_displayChar = Has (displayChar p), pobj_mapCoord = Has (mapCoord p),
      pobj_facing = Has (facing p), pobj_lastMovingTime = Has (lastMovingTime p)\<rparr>"
  unfolding Player_toJSON_def Let_def by simp

lemma Player_roundtrip:
  "Player_fromObject (Player_toJSON p) = p\<lparr>previousMapCoord := mapCoord p, removed := None\<rparr>"
  unfolding Player_toJSON_fields Player_fromObject_def Player_new_def Let_def
  by (intro Player.equality) (simp_all add: MapCoord_fromObject_id split: option.split)

text \<open>
  Through the JSON text the result is the same for a player whose \<open>displayName\<close>,
  \<open>displayChar\<close> and \<open>facing\<close> are set, as they are after the constructor and any number of
  messages.
\<close>

lemma Player_roundtrip_throughJSON:
  assumes "displayName p = Some dn" and "displayChar p = Some dc" and "facing p = Some fc"
  shows "Player_fromObject (Player_object_throughJSON (Player_toJSON p)) =
           p\<lparr>previousMapCoord := mapCoord p, removed := None\<rparr>"
proof (cases "playerID p"; cases "mapCoord p"; cases "lastMovingTime p")
qed (simp_all add: assms Player_toJSON_fields Player_object_throughJSON_def
      Player_fromObject_def Player_new_def MapCoord_fromObject_id)

text \<open>
  C2, as stated, fails, in three places. A message that has an id and no \<open>removed\<close> comes
  back with \<open>removed = false\<close>: \<open>fromObject\<close> goes through the constructor, which puts
  \<open>removed ?? false\<close>. A player that was marked removed comes back without \<open>removed\<close>, and
  a player that moved from \<open>(5, 5)\<close> to \<open>(6, 5)\<close> comes back with the previous position
  \<open>(6, 5)\<close>: neither \<open>removed\<close> nor \<open>_previousMapCoord\<close> is in \<open>ATTRIBUTES\<close>.
\<close>

theorem roundtrip_counterexample:
  "PlayerSyncMessage_fromObject
      (PlayerSyncMessage_toJSON (PlayerSyncMessage_empty\<lparr>msg_playerID := Some ''p1''\<rparr>))
     = Inr ([], PlayerSyncMessage_empty\<lparr>msg_playerID := Some ''p1'', msg_removed := Some False\<rparr>) \<and>
   msg_removed (PlayerSyncMessage_empty\<lparr>msg_playerID := Some ''p1''\<rparr>) = None \<and>
   removed (Player_fromObject (Player_toJSON
      ((Player_new (Some ''p1''))\<lparr>removed := Some True\<rparr>))) = None \<and>
   previousMapCoord (Player_fromObject (Player_toJSON
      ((Player_new (Some ''p1''))\<lparr>mapCoord := Some \<lparr>coord_x = 6, coord_y = 5\<rparr>,
         previousMapCoord := Some \<lparr>coord_x = 5, coord_y = 5\<rparr>,
         lastMovingTime := Some 1000\<rparr>))) = Some \<lparr>coord_x = 6, coord_y = 5\<rparr>"
  by (simp add: Player_roundtrip Player_new_def PlayerSyncMessage_empty_def
      PlayerSyncMessage_roundtrip_with_id [of _ "''p1''"])

text \<open>
  C2, amended. Deserializing the serialization of a player reproduces \<open>playerID\<close>,
  \<open>displayName\<close>, \<open>displayChar\<close>, \<open>mapCoord\<close>, \<open>facing\<close> and \<open>lastMovingTime\<close>, set or unset;
  the previous position comes back equal to the position and \<open>removed\<close> comes back unset.
  Deserializing the serialization of a message reproduces every field that was present
  and leaves every absent field absent, except \<open>removed\<close>, which comes back as \<open>false\<close> when
  it was absent and the message has an id. (For a message without an id the constructor
  logs its error.)
\<close>

theorem roundtrip:
  "Player_fromObject (Player_toJSON p) = p\<lparr>previousMapCoord := mapCoord p, removed := None\<rparr> \<and>
   PlayerSyncMessage_fromObject (PlayerSyncMessage_toJSON m) =
     Inr (if msg_playerID m = None then [playerID_error] else [],
          if msg_playerID m = None then m
          else m\<lparr>msg_removed := Some (case msg_removed m of None \<Rightarrow> False | Some b \<Rightarrow> b)\<rparr>)"
proof (cases "msg_playerID m")
  case None
  then show ?thesis
    by (simp add: Player_roundtrip PlayerSyncMessage_roundtrip_without_id)
next
  case (Some pid)
  then show ?thesis
    by (simp add: Player_roundtrip PlayerSyncMessage_roundtrip_with_id [of m pid])
qed

section \<open>Constructing a message\<close>

text \<open>
  C6, as stated, fails: constructing a message without an id does not fail. The call
  completes normally and returns an instance; the error is only written to the console.
  The instance has no field set, whatever the other arguments are.
\<close>

theorem PlayerSyncMessage_new_counterexample:
  "PlayerSyncMessage_new None (Some \<lparr>coord_x = 6, coord_y = 5\<rparr>) (Some ''U'') None None None
      None None
     = Inr ([playerID_error], PlayerSyncMessage_empty)"
  by (simp add: PlayerSyncMessage_new_def)

text \<open>
  C6, amended. Constructing a message without an id completes normally: it logs an error
  and returns an instance none of whose fields is set. Constructing with a defined id
  logs nothing and sets every field from the arguments, \<open>removed\<close> being \<open>false\<close> when the
  argument is \<open>undefined\<close>.
\<close>

theorem PlayerSyncMessage_new_result:
  "PlayerSyncMessage_new None mc fc dn dc rm ct us =
     Inr ([playerID_error], PlayerSyncMessage_empty) \<and>
   PlayerSyncMessage_new (Some pid) mc fc dn dc rm ct us =
     Inr ([],
       \<lparr>msg_playerID = Some pid, msg_mapCoord = mc, msg_facing = fc, msg_displayName = dn,
        msg_displayChar = dc, msg_removed = Some (case rm of None \<Rightarrow> False | Some r \<Rightarrow> r),
        msg_clientTime = ct, msg_updateSuccess = us\<rparr>)"
  by (simp add: PlayerSyncMessage_new_def split: option.split)

section \<open>The viewport\<close>

text \<open>
  C8. With \<open>minX = (canvas.width / 2) / mapCellSize\<close>, \<open>maxX = mapSize.width - minX\<close>, and
  \<open>minY\<close>, \<open>maxY\<close> alike: a request inside \<open>[minX, maxX] \<times> [minY, maxY]\<close> is stored unchanged;
  when the range is not degenerate, the stored position lies inside it for every request,
  so in particular for one outside it.
\<close>

theorem setViewerPosition_clamps:
  "(canvas_width this / 2 / mapCellSize \<le> x \<and>
    x \<le> mapSize_width this - canvas_width this / 2 / mapCellSize \<and>
    canvas_height this / 2 / mapCellSize \<le> y \<and>
    y \<le> mapSize_height this - canvas_height this / 2 / mapCellSize \<longrightarrow>
      viewerPosition_x (setViewerPosition x y this) = x \<and>
      viewerPosition_y (setViewerPosition x y this) = y) \<and>
   (canvas_width this / 2 / mapCellSize \<le>
      mapSize_width this - canvas_width this / 2 / mapCellSize \<and>
    canvas_height this / 2 / mapCellSize \<le>
      mapSize_height this - canvas_height this / 2 / mapCellSize \<longrightarrow>
      canvas_width this / 2 / mapCellSize \<le> viewerPosition_x (setViewerPosition x y this) \<and>
      viewerPosition_x (setViewerPosition x y this) \<le>
        mapSize_width this - canvas_width this / 2 / mapCellSize \<and>
      canvas_height this / 2 / mapCellSize \<le> viewerPosition_y (setViewerPosition x y this) \<and>
      viewerPosition_y (setViewerPosition x y this) \<le>
        mapSize_height this - canvas_height this / 2 / mapCellSize)"
  by (auto simp add: setViewerPosition_def Let_def)

theorem setViewerPosition_clamps_witness:
  "viewerPosition_x (setViewerPosition 50 40
      \<lparr>canvas_width = 640, canvas_height = 480, mapSize_width = 100, mapSize_height = 80,
       viewerPosition_x = 0, viewerPosition_y = 0\<rparr>) = 50 \<and>
   viewerPosition_y (setViewerPosition 50 40
      \<lparr>canvas_width = 640, canvas_height = 480, mapSize_width = 100, mapSize_height = 80,
       viewerPosition_x = 0, viewerPosition_y = 0\<rparr>) = 40 \<and>
   10 \<le> viewerPosition_x (setViewerPosition 0 200
      \<lparr>canvas_width = 640, canvas_height = 480, mapSize_width = 100, mapSize_height = 80,
       viewerPosition_x = 0, viewerPosition_y = 0\<rparr>) \<and>
   viewerPosition_x (setViewerPosition 0 200
      \<lparr>canvas_width = 640, canvas_height = 480, mapSize_width = 100, mapSize_height = 80,
       viewerPosition_x = 0, viewerPosition_y = 0\<rparr>) \<le> 90 \<and>
   15 / 2 \<le> viewerPosition_y (setViewerPosition 0 200
      \<lparr>canvas_width = 640, canvas_height = 480, mapSize_width = 100, mapSize_height = 80,
       viewerPosition_x = 0, viewerPosition_y = 0\<rparr>) \<and>
   viewerPosition_y (setViewerPosition 0 200
      \<lparr>canvas_width = 640, canvas_height = 480, mapSize_width = 100, mapSize_height = 80,
       viewerPosition_x = 0, viewerPosition_y = 0\<rparr>) \<le> 145 / 2"
  using
    setViewerPosition_clamps
      [of "\<lparr>canvas_width = 640, canvas_height = 480, mapSize_width = 100, mapSize_height = 80,
            viewerPosition_x = 0, viewerPosition_y = 0\<rparr>" 50 40]
    setViewerPosition_clamps
      [of "\<lparr>canvas_width = 640, canvas_height = 480, mapSize_width = 100, mapSize_height = 80,
            viewerPosition_x = 0, viewerPosition_y = 0\<rparr>" 0 200]
  by (simp add: mapCellSize_def)

lemma canvas_roundtrip_arg:
  "c + ((v + (p - c) / mapCellSize) - v) * mapCellSize = (p::real)"
  by (simp add: mapCellSize_def field_simps)

lemma floor_within_one: "\<bar>real_of_int \<lfloor>p::real\<rfloor> - p\<bar> \<le> 1"
  by linarith

lemma mapToCanvas_canvasToMap:
  "mapToCanvasCoordinate (fst (canvasToMapCoordinate px py this))
     (snd (canvasToMapCoordinate px py this)) this = (\<lfloor>px\<rfloor>, \<lfloor>py\<rfloor>)"
  unfolding mapToCanvasCoordinate_def canvasToMapCoordinate_def Let_def fst_conv snd_conv
  by (simp only: canvas_roundtrip_arg)

text \<open>
  C9. Taking a canvas coordinate \<open>(px, py)\<close> to map coordinates and back gives a pixel that
  differs from \<open>(px, py)\<close> by at most one in each component. It holds for every coordinate,
  inside the canvas or not: the result is \<open>(\<lfloor>px\<rfloor>, \<lfloor>py\<rfloor>)\<close>.
\<close>

theorem canvas_map_canvas_within_one_pixel:
  "\<bar>real_of_int (fst (mapToCanvasCoordinate (fst (canvasToMapCoordinate px py this))
        (snd (canvasToMapCoordinate px py this)) this)) - px\<bar> \<le> 1 \<and>
   \<bar>real_of_int (snd (mapToCanvasCoordinate (fst (canvasToMapCoordinate px py this))
        (snd (canvasToMapCoordinate px py this)) this)) - py\<bar> \<le> 1"
  unfolding mapToCanvas_canvasToMap fst_conv snd_conv
  using floor_within_one [of px] floor_within_one [of py] by (rule conjI)

section \<open>Drawing\<close>

lemma MapRenderer_drawGround_true:
  "MapRenderer_drawGround getCellRenderInfo this ctx = Inr (ret, ctx') \<Longrightarrow> ret = True"
  by (auto simp add: MapRenderer_drawGround_def Let_def split: sum.splits)

lemma MapRenderer_drawPlayers_true:
  "MapRenderer_drawPlayers getCharacter players this ctx = Inr (ret, ctx') \<Longrightarrow> ret = True"
  by (auto simp add: MapRenderer_drawPlayers_def Let_def split: sum.splits)

lemma draw_ground_raises:
  "MapRenderer_drawGround g (viewport this) (canvas_ctx this) = Inl (e, c) \<Longrightarrow>
   draw g gc players this = Inl (e, this\<lparr>canvas_ctx := c\<rparr>)"
  by (simp add: draw_def)

lemma draw_ground_returns:
  "MapRenderer_drawGround g (viewport this) (canvas_ctx this) = Inr (ret, c) \<Longrightarrow>
   draw g gc players this =
     (case MapRenderer_drawPlayers gc players (viewport this) c of
        Inl (e', c') \<Rightarrow> Inl (e', this\<lparr>canvas_ctx := c'\<rparr>)
      | Inr (ret', c') \<Rightarrow> Inr (True, this\<lparr>canvas_ctx := c'\<rparr>))"
  by (auto simp add: draw_def split: sum.splits
      dest: MapRenderer_drawGround_true MapRenderer_drawPlayers_true)

lemma draw_returns:
  assumes "draw g gc players this = Inr (ret, this')"
  shows "\<exists>c. MapRenderer_drawGround g (viewport this) (canvas_ctx this) = Inr (True, c) \<and>
             MapRenderer_drawPlayers gc players (viewport this) c = Inr (True, canvas_ctx this')"
proof (cases "MapRenderer_drawGround g (viewport this) (canvas_ctx this)")
  case (Inl raised)
  with assms show ?thesis
    by (cases raised) (simp add: draw_ground_raises)
next
  case (Inr returned)
  obtain r c where rc: "returned = (r, c)" by (cases returned)
  with Inr have ground: "MapRenderer_drawGround g (viewport this) (canvas_ctx this) = Inr (True, c)"
    using MapRenderer_drawGround_true [of g "viewport this" "canvas_ctx this" r c] by simp
  from assms have "MapRenderer_drawPlayers gc players (viewport this) c =
      Inr (True, canvas_ctx this')"
    unfolding draw_ground_returns [OF ground]
    by (auto split: sum.splits dest: MapRenderer_drawPlayers_true)
  with ground show ?thesis by blast
qed

lemma draw_example:
  "draw
     (\<lambda>layer x y. Some \<lparr>ri_image = ''tiles'', ri_srcX = 0, ri_srcY = 0, ri_srcWidth = 32,
        ri_srcHeight = 32\<rparr>)
     (\<lambda>c f. Some \<lparr>ri_image = ''chars'', ri_srcX = 0, ri_srcY = 0, ri_srcWidth = 32,
        ri_srcHeight = 32\<rparr>)
     [\<lparr>entry_x = 0, entry_y = 0, entry_displayChar = Some ''char1'',
       entry_facing = Some ''D'', entry_displayName = Some ''p1''\<rparr>]
     \<lparr>viewport = \<lparr>canvas_width = 32, canvas_height = 32, mapSize_width = 1,
        mapSize_height = 1, viewerPosition_x = 1 / 2, viewerPosition_y = 1 / 2\<rparr>,
      canvas_ctx = [], customizedLayers = ls\<rparr>
   = Inr (True,
       \<lparr>viewport = \<lparr>canvas_width = 32, canvas_height = 32, mapSize_width = 1,
          mapSize_height = 1, viewerPosition_x = 1 / 2, viewerPosition_y = 1 / 2\<rparr>,
        canvas_ctx =
          [DrawImage ''tiles'' 0 0 32 32 0 0 32 32, DrawImage ''chars'' 0 0 32 32 0 0 32 32,
           Save, Font ''12px serif'', TextAlign ''center'', TextBaseline ''bottom'',
           FillText (Some ''p1'') 16 0, Restore],
        customizedLayers = ls\<rparr>)"
  by (simp add: draw_def MapRenderer_drawGround_def MapRenderer_drawPlayers_def Let_def
      canvasToMapCoordinate_def mapToCanvasCoordinate_def mapCellSize_def fontStyle_def
      upto.simps)

text \<open>
  C5, as stated, fails. The map below has two cells and the render info of the second is
  missing. The ground layer's draw fails there, after one tile, by raising a \<open>TypeError\<close>;
  \<open>draw\<close> is aborted: the players layer is not invoked (the canvas holds the one tile and
  neither sprite nor name of the player) and no boolean is returned.
\<close>

theorem draw_counterexample:
  "draw
     (\<lambda>layer x y. if x = 0 then Some \<lparr>ri_image = ''tiles'', ri_srcX = 0, ri_srcY = 0,
        ri_srcWidth = 32, ri_srcHeight = 32\<rparr> else None)
     (\<lambda>c f. Some \<lparr>ri_image = ''chars'', ri_srcX = 0, ri_srcY = 0, ri_srcWidth = 32,
        ri_srcHeight = 32\<rparr>)
     [\<lparr>entry_x = 0, entry_y = 0, entry_displayChar = Some ''char1'',
       entry_facing = Some ''D'', entry_displayName = Some ''p1''\<rparr>]
     \<lparr>viewport = \<lparr>canvas_width = 64, canvas_height = 32, mapSize_width = 2,
        mapSize_height = 1, viewerPosition_x = 1, viewerPosition_y = 1 / 2\<rparr>,
      canvas_ctx = [], customizedLayers = ([] :: unit layer list)\<rparr>
   = Inl (TypeError,
       \<lparr>viewport = \<lparr>canvas_width = 64, canvas_height = 32, mapSize_width = 2,
          mapSize_height = 1, viewerPosition_x = 1, viewerPosition_y = 1 / 2\<rparr>,
        canvas_ctx = [DrawImage ''tiles'' 0 0 32 32 0 0 32 32],
        customizedLayers = []\<rparr>)"
  by (simp add: draw_def MapRenderer_drawGround_def Let_def canvasToMapCoordinate_def
      mapToCanvasCoordinate_def mapCellSize_def upto.simps)

text \<open>
  C5, amended. During one \<open>draw\<close> pass a layer's draw does not report false: it returns
  true or it fails by raising. When the ground layer raises, \<open>draw\<close> is aborted with the
  canvas as that layer left it: the players layer is not invoked and no boolean is
  returned. When the ground layer returns, the players layer is invoked on the canvas it
  left; \<open>draw\<close> returns true if that layer returns, and is aborted if it raises.
\<close>

theorem draw_layers_outcome:
  "(MapRenderer_drawGround g (viewport this) (canvas_ctx this) = Inl (e, c) \<longrightarrow>
      draw g gc players this = Inl (e, this\<lparr>canvas_ctx := c\<rparr>)) \<and>
   (MapRenderer_drawGround g (viewport this) (canvas_ctx this) = Inr (ret, c) \<longrightarrow>
      ret = True \<and>
      draw g gc players this =
        (case MapRenderer_drawPlayers gc players (viewport this) c of
           Inl (e', c') \<Rightarrow> Inl (e', this\<lparr>canvas_ctx := c'\<rparr>)
         | Inr (ret', c') \<Rightarrow> Inr (True, this\<lparr>canvas_ctx := c'\<rparr>)))"
  by (auto simp add: draw_ground_raises draw_ground_returns
      dest: MapRenderer_drawGround_true)

theorem draw_layers_outcome_witness:
  "draw
     (\<lambda>layer x y. if x = 0 then Some \<lparr>ri_image = ''tiles'', ri_srcX = 0, ri_srcY = 0,
        ri_srcWidth = 32, ri_srcHeight = 32\<rparr> else None)
     (\<lambda>c f. Some \<lparr>ri_image = ''chars'', ri_srcX = 0, ri_srcY = 0, ri_srcWidth = 32,
        ri_srcHeight = 32\<rparr>)
     [\<lparr>entry_x = 0, entry_y = 0, entry_displayChar = Some ''char1'',
       entry_facing = Some ''D'', entry_displayName = Some ''p1''\<rparr>]
     \<lparr>viewport = \<lparr>canvas_width = 64, canvas_height = 32, mapSize_width = 2,
        mapSize_height = 1, viewerPosition_x = 1, viewerPosition_y = 1 / 2\<rparr>,
      canvas_ctx = [], customizedLayers = ([] :: unit layer list)\<rparr>
   = Inl (TypeError,
       \<lparr>viewport = \<lparr>canvas_width = 64, canvas_height = 32, mapSize_width = 2,
          mapSize_height = 1, viewerPosition_x = 1, viewerPosition_y = 1 / 2\<rparr>,
        canvas_ctx = [DrawImage ''tiles'' 0 0 32 32 0 0 32 32],
        customizedLayers = []\<rparr>) \<and>
   draw
     (\<lambda>layer x y. Some \<lparr>ri_image = ''tiles'', ri_srcX = 0, ri_srcY = 0, ri_srcWidth = 32,
        ri_srcHeight = 32\<rparr>)
     (\<lambda>c f. Some \<lparr>ri_image = ''chars'', ri_srcX = 0, ri_srcY = 0, ri_srcWidth = 32,
        ri_srcHeight = 32\<rparr>)
     [\<lparr>entry_x = 0, entry_y = 0, entry_displayChar = Some ''char1'',
       entry_facing = Some ''D'', entry_displayName = Some ''p1''\<rparr>]
     \<lparr>viewport = \<lparr>canvas_width = 32, canvas_height = 32, mapSize_width = 1,
        mapSize_height = 1, viewerPosition_x = 1 / 2, viewerPosition_y = 1 / 2\<rparr>,
      canvas_ctx = [], customizedLayers = ([] :: unit layer list)\<rparr>
   = Inr (True,
       \<lparr>viewport = \<lparr>canvas_width = 32, canvas_height = 32, mapSize_width = 1,
          mapSize_height = 1, viewerPosition_x = 1 / 2, viewerPosition_y = 1 / 2\<rparr>,
        canvas_ctx =
          [DrawImage ''tiles'' 0 0 32 32 0 0 32 32, DrawImage ''chars'' 0 0 32 32 0 0 32 32,
           Save, Font ''12px serif'', TextAlign ''center'', TextBaseline ''bottom'',
           FillText (Some ''p1'') 16 0, Restore],
        customizedLayers = []\<rparr>)"
  using
    draw_layers_outcome
      [of "\<lambda>layer x y. if x = 0 then Some \<lparr>ri_image = ''tiles'', ri_srcX = 0, ri_srcY = 0,
            ri_srcWidth = 32, ri_srcHeight = 32\<rparr> else None"
        "\<lparr>viewport = \<lparr>canvas_width = 64, canvas_height = 32, mapSize_width = 2,
            mapSize_height = 1, viewerPosition_x = 1, viewerPosition_y = 1 / 2\<rparr>,
          canvas_ctx = [], customizedLayers = ([] :: unit layer list)\<rparr>"
        TypeError "[DrawImage ''tiles'' 0 0 32 32 0 0 32 32]"
        "\<lambda>c f. Some \<lparr>ri_image = ''chars'', ri_srcX = 0, ri_srcY = 0, ri_srcWidth = 32,
            ri_srcHeight = 32\<rparr>"
        "[\<lparr>entry_x = 0, entry_y = 0, entry_displayChar = Some ''char1'',
           entry_facing = Some ''D'', entry_displayName = Some ''p1''\<rparr>]"
        True]
    draw_layers_outcome
      [of "\<lambda>layer x y. Some \<lparr>ri_image = ''tiles'', ri_srcX = 0, ri_srcY = 0,
            ri_srcWidth = 32, ri_srcHeight = 32\<rparr>"
        "\<lparr>viewport = \<lparr>canvas_width = 32, canvas_height = 32, mapSize_width = 1,
            mapSize_height = 1, viewerPosition_x = 1 / 2, viewerPosition_y = 1 / 2\<rparr>,
          canvas_ctx = [], customizedLayers = ([] :: unit layer list)\<rparr>"
        TypeError "[DrawImage ''tiles'' 0 0 32 32 0 0 32 32]"
        "\<lambda>c f. Some \<lparr>ri_image = ''chars'', ri_srcX = 0, ri_srcY = 0, ri_srcWidth = 32,
            ri_srcHeight = 32\<rparr>"
        "[\<lparr>entry_x = 0, entry_y = 0, entry_displayChar = Some ''char1'',
           entry_facing = Some ''D'', entry_displayName = Some ''p1''\<rparr>]"
        True]
  by (simp add: MapRenderer_drawGround_def MapRenderer_drawPlayers_def Let_def
      canvasToMapCoordinate_def mapToCanvasCoordinate_def mapCellSize_def fontStyle_def
      upto.simps)

section \<open>Registered layers\<close>

lemma draw_ignores_customizedLayers:
  "map_sum (map_prod id canvas_ctx) (map_prod id canvas_ctx)
     (draw g gc players (this\<lparr>customizedLayers := ls\<rparr>)) =
   map_sum (map_prod id canvas_ctx) (map_prod id canvas_ctx) (draw g gc players this)"
  by (simp add: draw_def split: sum.splits prod.splits)

text \<open>
  C7, as stated, fails. A layer \<open>fog\<close> is registered at \<open>zIndex\<close> 5 and then the layer
  \<open>guidepost\<close> at \<open>zIndex\<close> -10; the callback of each would write its layer's name on the
  canvas. After \<open>draw\<close> the canvas holds the calls of the ground layer and of the players
  layer and no other: \<open>draw\<close> has invoked neither callback.
\<close>

theorem draw_registered_counterexample:
  "map_sum (map_prod id canvas_ctx) (map_prod id canvas_ctx)
     (draw
        (\<lambda>layer x y. Some \<lparr>ri_image = ''tiles'', ri_srcX = 0, ri_srcY = 0, ri_srcWidth = 32,
           ri_srcHeight = 32\<rparr>)
        (\<lambda>c f. Some \<lparr>ri_image = ''chars'', ri_srcX = 0, ri_srcY = 0, ri_srcWidth = 32,
           ri_srcHeight = 32\<rparr>)
        [\<lparr>entry_x = 0, entry_y = 0, entry_displayChar = Some ''char1'',
          entry_facing = Some ''D'', entry_displayName = Some ''p1''\<rparr>]
        (registerCustomizedLayerToDraw LAYER_GUIDEPOST_zIndex LAYER_GUIDEPOST_layerName
           (\<lambda>d ctx. Inr (True, ctx @ [FillText (Some d) 0 0])) ''guidepost''
           (registerCustomizedLayerToDraw 5 ''fog''
              (\<lambda>d ctx. Inr (True, ctx @ [FillText (Some d) 0 0])) ''fog''
              \<lparr>viewport = \<lparr>canvas_width = 32, canvas_height = 32, mapSize_width = 1,
                 mapSize_height = 1, viewerPosition_x = 1 / 2, viewerPosition_y = 1 / 2\<rparr>,
               canvas_ctx = [], customizedLayers = []\<rparr>)))
   = Inr (True,
       [DrawImage ''tiles'' 0 0 32 32 0 0 32 32, DrawImage ''chars'' 0 0 32 32 0 0 32 32,
        Save, Font ''12px serif'', TextAlign ''center'', TextBaseline ''bottom'',
        FillText (Some ''p1'') 16 0, Restore]) \<and>
   map layerName (customizedLayers
     (registerCustomizedLayerToDraw LAYER_GUIDEPOST_zIndex LAYER_GUIDEPOST_layerName
        (\<lambda>d ctx. Inr (True, ctx @ [FillText (Some d) 0 0])) ''guidepost''
        (registerCustomizedLayerToDraw 5 ''fog''
           (\<lambda>d ctx. Inr (True, ctx @ [FillText (Some d) 0 0])) ''fog''
           \<lparr>viewport = \<lparr>canvas_width = 32, canvas_height = 32, mapSize_width = 1,
              mapSize_height = 1, viewerPosition_x = 1 / 2, viewerPosition_y = 1 / 2\<rparr>,
            canvas_ctx = [], customizedLayers = []\<rparr>)))
   = [''fog'', ''guidepost'']"
  by (simp add: registerCustomizedLayerToDraw_def LAYER_GUIDEPOST_zIndex_def
      LAYER_GUIDEPOST_layerName_def draw_example)

text \<open>
  C7, amended. \<open>draw\<close> invokes the two layers of the renderer in a fixed order, the ground
  layer first and the players layer on the canvas the ground layer left; registering a
  layer, at whatever \<open>zIndex\<close>, changes neither the outcome of \<open>draw\<close> nor the calls it makes
  on the canvas: \<open>draw\<close> invokes no registered layer's callback.
\<close>

theorem draw_fixed_layers:
  "map_sum (map_prod id canvas_ctx) (map_prod id canvas_ctx)
     (draw g gc players (registerCustomizedLayerToDraw z n f d this)) =
   map_sum (map_prod id canvas_ctx) (map_prod id canvas_ctx) (draw g gc players this) \<and>
   (draw g gc players this = Inr (ret, this') \<longrightarrow>
      ret = True \<and> this' = this\<lparr>canvas_ctx := canvas_ctx this'\<rparr> \<and>
      (\<exists>c. MapRenderer_drawGround g (viewport this) (canvas_ctx this) = Inr (True, c) \<and>
           MapRenderer_drawPlayers gc players (viewport this) c =
             Inr (True, canvas_ctx this'))) \<and>
   (MapRenderer_drawGround g (viewport this) (canvas_ctx this) = Inr (True, c) \<and>
    MapRenderer_drawPlayers gc players (viewport this) c = Inr (True, c') \<longrightarrow>
      draw g gc players this = Inr (True, this\<lparr>canvas_ctx := c'\<rparr>))"
proof (intro conjI impI)
  show "map_sum (map_prod id canvas_ctx) (map_prod id canvas_ctx)
     (draw g gc players (registerCustomizedLayerToDraw z n f d this)) =
   map_sum (map_prod id canvas_ctx) (map_prod id canvas_ctx) (draw g gc players this)"
    by (simp add: registerCustomizedLayerToDraw_def draw_ignores_customizedLayers)
next
  assume returned: "draw g gc players this = Inr (ret, this')"
  then obtain c0 where
    ground: "MapRenderer_drawGround g (viewport this) (canvas_ctx this) = Inr (True, c0)" and
    players: "MapRenderer_drawPlayers gc players (viewport this) c0 =
      Inr (True, canvas_ctx this')"
    using draw_returns by blast
  from returned have "Inr (ret, this') = Inr (True, this\<lparr>canvas_ctx := canvas_ctx this'\<rparr>)"
    by (simp add: draw_ground_returns [OF ground] players)
  then show "ret = True" and "this' = this\<lparr>canvas_ctx := canvas_ctx this'\<rparr>"
    by simp_all
  from ground players
  show "\<exists>c. MapRenderer_drawGround g (viewport this) (canvas_ctx this) = Inr (True, c) \<and>
      MapRenderer_drawPlayers gc players (viewport this) c = Inr (True, canvas_ctx this')"
    by blast
next
  assume "MapRenderer_drawGround g (viewport this) (canvas_ctx this) = Inr (True, c) \<and>
    MapRenderer_drawPlayers gc players (viewport this) c = Inr (True, c')"
  then show "draw g gc players this = Inr (True, this\<lparr>canvas_ctx := c'\<rparr>)"
    by (simp add: draw_ground_returns)
qed

theorem draw_fixed_layers_witness:
  "\<exists>c. MapRenderer_drawGround
          (\<lambda>layer x y. Some \<lparr>ri_image = ''tiles'', ri_srcX = 0, ri_srcY = 0,
             ri_srcWidth = 32, ri_srcHeight = 32\<rparr>)
          \<lparr>canvas_width = 32, canvas_height = 32, mapSize_width = 1, mapSize_height = 1,
           viewerPosition_x = 1 / 2, viewerPosition_y = 1 / 2\<rparr> [] = Inr (True, c) \<and>
        MapRenderer_drawPlayers
          (\<lambda>c f. Some \<lparr>ri_image = ''chars'', ri_srcX = 0, ri_srcY = 0, ri_srcWidth = 32,
             ri_srcHeight = 32\<rparr>)
          [\<lparr>entry_x = 0, entry_y = 0, entry_displayChar = Some ''char1'',
            entry_facing = Some ''D'', entry_displayName = Some ''p1''\<rparr>]
          \<lparr>canvas_width = 32, canvas_height = 32, mapSize_width = 1, mapSize_height = 1,
           viewerPosition_x = 1 / 2, viewerPosition_y = 1 / 2\<rparr> c
        = Inr (True,
            [DrawImage ''tiles'' 0 0 32 32 0 0 32 32, DrawImage ''chars'' 0 0 32 32 0 0 32 32,
             Save, Font ''12px serif'', TextAlign ''center'', TextBaseline ''bottom'',
             FillText (Some ''p1'') 16 0, Restore])"
  using
    draw_fixed_layers
      [of "\<lambda>layer x y. Some \<lparr>ri_image = ''tiles'', ri_srcX = 0, ri_srcY = 0,
             ri_srcWidth = 32, ri_srcHeight = 32\<rparr>"
        "\<lambda>c f. Some \<lparr>ri_image = ''chars'', ri_srcX = 0, ri_srcY = 0, ri_srcWidth = 32,
             ri_srcHeight = 32\<rparr>"
        "[\<lparr>entry_x = 0, entry_y = 0, entry_displayChar = Some ''char1'',
            entry_facing = Some ''D'', entry_displayName = Some ''p1''\<rparr>]"
        5 "''fog''" "\<lambda>d ctx. Inr (True, ctx @ [FillText (Some d) 0 0])" "''fog''"
        "\<lparr>viewport = \<lparr>canvas_width = 32, canvas_height = 32, mapSize_width = 1,
            mapSize_height = 1, viewerPosition_x = 1 / 2, viewerPosition_y = 1 / 2\<rparr>,
          canvas_ctx = [], customizedLayers = ([] :: string layer list)\<rparr>"
        True
        "\<lparr>viewport = \<lparr>canvas_width = 32, canvas_height = 32, mapSize_width = 1,
            mapSize_height = 1, viewerPosition_x = 1 / 2, viewerPosition_y = 1 / 2\<rparr>,
          canvas_ctx =
            [DrawImage ''tiles'' 0 0 32 32 0 0 32 32, DrawImage ''chars'' 0 0 32 32 0 0 32 32,
             Save, Font ''12px serif'', TextAlign ''center'', TextBaseline ''bottom'',
             FillText (Some ''p1'') 16 0, Restore],
          customizedLayers = []\<rparr>"]
    draw_example [of "[] :: string layer list"]
  by simp

end
